theory Spec2Isabelle
  imports Main "HOL-Library.Sublist"
begin

section \<open>Values, requests and responses\<close>

text \<open>
  The server of \<^verbatim>\<open>app.js\<close> is an Express application over two Mongoose models and the
  libraries \<^verbatim>\<open>jsonwebtoken\<close> and \<^verbatim>\<open>uuid\<close>. Each route handler is embedded as a function
  from the request and the state of the world to a response and the new state.

  A request body is the list of the keys and values of its JSON text; where a key is
  repeated the last occurrence counts, as in \<^verbatim>\<open>JSON.parse\<close>. A field is read by
  destructuring, so a missing key reads as \<^verbatim>\<open>undefined\<close>. The values a field of the
  chat body carries are strings and \<^verbatim>\<open>null\<close>; numbers, booleans, arrays and objects are
  outside the model of that route.
\<close>

datatype jsval = JUndefined | JNull | JStr string

type_synonym obj = "(string \<times> jsval) list"

definition field :: "obj \<Rightarrow> string \<Rightarrow> jsval" where
  "field b k = (case map_of (rev b) k of None \<Rightarrow> JUndefined | Some v \<Rightarrow> v)"

text \<open>JavaScript truthiness, as the operators \<^verbatim>\<open>!\<close> and \<^verbatim>\<open>||\<close> see it.\<close>

fun truthy :: "jsval \<Rightarrow> bool" where
  "truthy JUndefined = False"
| "truthy JNull = False"
| "truthy (JStr s) = (s \<noteq> [])"

text \<open>The string a template literal \<^verbatim>\<open>${v}\<close> inserts.\<close>

fun to_string :: "jsval \<Rightarrow> string" where
  "to_string JUndefined = ''undefined''"
| "to_string JNull = ''null''"
| "to_string (JStr s) = s"

text \<open>
  \<^verbatim>\<open>String.prototype.replace\<close> with a string pattern: the first occurrence of the
  pattern, wherever it stands, is replaced; a string without the pattern is unchanged.
\<close>

fun replace_first :: "string \<Rightarrow> string \<Rightarrow> string \<Rightarrow> string" where
  "replace_first pat rep [] = (if pat = [] then rep else [])"
| "replace_first pat rep (c # cs) =
     (if prefix pat (c # cs) then rep @ drop (length pat) (c # cs)
      else c # replace_first pat rep cs)"

text \<open>
  A field of a registration or login body becomes a condition of a database query, and
  the \<^verbatim>\<open>userId\<close> of a token's payload an identifier to look up. There an object is not
  data: Mongoose reads it as a document of query operators, or tries to cast it. The
  values of these bodies and of a payload are therefore plain values or objects.
\<close>

datatype qval = Plain jsval | JObject obj

type_synonym qobj = "(string \<times> qval) list"

definition qfield :: "qobj \<Rightarrow> string \<Rightarrow> qval" where
  "qfield b k = (case map_of (rev b) k of None \<Rightarrow> Plain JUndefined | Some v \<Rightarrow> v)"

fun qtruthy :: "qval \<Rightarrow> bool" where
  "qtruthy (Plain v) = truthy v"
| "qtruthy (JObject ob) = True"

type_synonym objid = nat

record user_view =
  view_id :: objid
  view_username :: string
  view_email :: string
  view_createdAt :: nat

datatype json_body =
    ErrorJson string
  | AuthJson bool string objid string string
  | UserJson "user_view option"
  | ChatJson string jsval

record response =
  status :: nat
  body :: json_body

definition json :: "nat \<Rightarrow> json_body \<Rightarrow> response" where
  "json st b = \<lparr>status = st, body = b\<rparr>"

section \<open>The models and the world\<close>

text \<open>
  The three \<^verbatim>\<open>String\<close> paths of the \<^verbatim>\<open>Message\<close> schema are shared by the object a handler
  hands to \<^verbatim>\<open>Message.create\<close> and by the stored document. The handler's object has the
  further key \<^verbatim>\<open>userId\<close>; the schema (lines 24 to 29) has the further path
  \<^verbatim>\<open>timestamp\<close> and, as every Mongoose document, an identifier. The path \<^verbatim>\<open>text\<close> is
  \<open>msg_text\<close> here. A path whose value is \<open>JUndefined\<close> is not set in the document.
\<close>

record message_paths =
  sessionId :: jsval
  msg_text :: jsval
  sender :: jsval

record Message = message_paths +
  timestamp :: nat
  message_id :: objid

record message_input = message_paths +
  userId_key :: qval

record User =
  user_id :: objid
  username :: string
  email :: string
  password :: string
  createdAt :: nat

datatype store_error = StoreError | CastError | ValidationError | DuplicateKey

text \<open>
  The world: both collections, the next object identifier, the clock \<^verbatim>\<open>Date.now\<close>, the
  number of identifiers \<^verbatim>\<open>uuidv4\<close> has drawn, and the fate of the coming database calls
  (\<open>True\<close>: the call is rejected; once the list is used up every call goes through).
\<close>

record world =
  users :: "User list"
  messages :: "Message list"
  next_oid :: objid
  clock :: nat
  uuid_draws :: nat
  outages :: "bool list"

definition store_call :: "world \<Rightarrow> bool \<times> world" where
  "store_call w = (case outages w of [] \<Rightarrow> (False, w) | b # bs \<Rightarrow> (b, w\<lparr>outages := bs\<rparr>))"

section \<open>Libraries and configuration\<close>

text \<open>
  \<^verbatim>\<open>jsonwebtoken\<close>, \<^verbatim>\<open>uuid\<close>, Mongoose and MongoDB are not part of the repository: what the
  handlers need of them is a parameter.
  \<^item> \<open>jwt_sign payload secret expiresIn now\<close> is \<^verbatim>\<open>jwt.sign\<close> and
    \<open>jwt_verify token secret now\<close> is \<^verbatim>\<open>jwt.verify\<close>, which throws on a token it rejects.
    A payload is what \<^verbatim>\<open>jwt.verify\<close> returns: whoever holds the secret decides what its
    \<^verbatim>\<open>userId\<close> is. The \<^verbatim>\<open>iat\<close> and \<^verbatim>\<open>exp\<close> that the library adds are read by no handler
    and are left out.
  \<^item> \<open>uuidv4 n\<close> is the identifier that the \<open>n\<close>-th call of \<^verbatim>\<open>uuidv4()\<close> returns.
  \<^item> \<open>toHexString i\<close> is the string that stands for the object identifier \<open>i\<close> in JSON,
    and \<open>cast_ObjectId v\<close> is the identifier Mongoose casts \<open>v\<close> to; \<open>None\<close> is its
    \<^verbatim>\<open>CastError\<close>, raised before any database call.
  \<^item> \<open>cast_String ob\<close> is the string Mongoose casts the object \<open>ob\<close> to when a document is
    built, \<open>None\<close> again its \<^verbatim>\<open>CastError\<close>.
  \<^item> \<open>query_cond v\<close> is the reading of a condition \<^verbatim>\<open>{path: v}\<close> on a \<^verbatim>\<open>String\<close> path when
    \<open>v\<close> is not a string (\<^verbatim>\<open>undefined\<close>, \<^verbatim>\<open>null\<close>, or an object such as
    \<^verbatim>\<open>{"$gt": ""}\<close>): the set of stored strings it matches, or \<open>None\<close> when the query is
    rejected.
  \<^item> \<open>db_pick ms\<close> is MongoDB's choice among the documents \<open>ms\<close> that match a
    \<^verbatim>\<open>findOne\<close>: the position of the one it returns. No order is promised.
\<close>

record jwt_payload =
  userId :: qval
  jwt_username :: string

datatype jwt_error = Malformed | BadSignature | Expired

record env =
  JWT_SECRET :: "string option"
  jwt_sign :: "jwt_payload \<Rightarrow> string \<Rightarrow> nat \<Rightarrow> nat \<Rightarrow> string"
  jwt_verify :: "string \<Rightarrow> string \<Rightarrow> nat \<Rightarrow> jwt_error + jwt_payload"
  uuidv4 :: "nat \<Rightarrow> string"
  toHexString :: "objid \<Rightarrow> string"
  cast_ObjectId :: "qval \<Rightarrow> objid option"
  cast_String :: "obj \<Rightarrow> string option"
  query_cond :: "qval \<Rightarrow> (string \<Rightarrow> bool) option"
  db_pick :: "User list \<Rightarrow> nat"

text \<open>\<^verbatim>\<open>process.env.JWT_SECRET || 'your-secret-key'\<close>\<close>

definition secret :: "env \<Rightarrow> string" where
  "secret E = (case JWT_SECRET E of None \<Rightarrow> ''your-secret-key''
               | Some s \<Rightarrow> if s = [] then ''your-secret-key'' else s)"

section \<open>The store\<close>

text \<open>
  \<^verbatim>\<open>findOne\<close> returns one of the documents that match, or \<^verbatim>\<open>null\<close> when none does.
\<close>

definition find_one :: "env \<Rightarrow> (User \<Rightarrow> bool) \<Rightarrow> User list \<Rightarrow> User option" where
  "find_one E P us =
     (case filter P us of
        [] \<Rightarrow> None
      | m # ms \<Rightarrow> Some ((m # ms) ! (db_pick E (m # ms) mod length (m # ms))))"

text \<open>
  A query condition \<^verbatim>\<open>{path: v}\<close> on a \<^verbatim>\<open>String\<close> path: a string matches the documents
  that hold it; any other value is passed on as it is.
\<close>

fun path_cond :: "env \<Rightarrow> qval \<Rightarrow> (string \<Rightarrow> bool) option" where
  "path_cond E (Plain (JStr s)) = Some (\<lambda>stored. stored = s)"
| "path_cond E v = query_cond E v"

text \<open>\<^verbatim>\<open>User.findOne({ $or: [{ username }, { email }] })\<close>\<close>

definition User_findOne_or ::
    "env \<Rightarrow> qval \<Rightarrow> qval \<Rightarrow> world \<Rightarrow> (store_error + User option) \<times> world" where
  "User_findOne_or E u e w =
     (case (path_cond E u, path_cond E e) of
        (Some pu, Some pe) \<Rightarrow>
          (let (down, w1) = store_call w in
           if down then (Inl StoreError, w1)
           else (Inr (find_one E (\<lambda>x. pu (username x) \<or> pe (email x)) (users w1)), w1))
      | _ \<Rightarrow> (Inl CastError, w))"

text \<open>\<^verbatim>\<open>User.findOne({ email })\<close>\<close>

definition User_findOne_email ::
    "env \<Rightarrow> qval \<Rightarrow> world \<Rightarrow> (store_error + User option) \<times> world" where
  "User_findOne_email E e w =
     (case path_cond E e of
        Some pe \<Rightarrow>
          (let (down, w1) = store_call w in
           if down then (Inl StoreError, w1)
           else (Inr (find_one E (\<lambda>x. pe (email x)) (users w1)), w1))
      | None \<Rightarrow> (Inl CastError, w))"

text \<open>
  \<^verbatim>\<open>User.findById(id).select('-password')\<close>. Mongoose turns \<^verbatim>\<open>findById(undefined)\<close> into
  \<^verbatim>\<open>findOne({ _id: null })\<close>, which no document matches; any other value is cast to
  an object identifier first.
\<close>

definition select_minus_password :: "User \<Rightarrow> user_view" where
  "select_minus_password u =
     \<lparr>view_id = user_id u, view_username = username u, view_email = email u,
      view_createdAt = createdAt u\<rparr>"

fun id_cond :: "env \<Rightarrow> qval \<Rightarrow> (objid \<Rightarrow> bool) option" where
  "id_cond E (Plain JUndefined) = Some (\<lambda>stored. False)"
| "id_cond E (Plain JNull) = Some (\<lambda>stored. False)"
| "id_cond E v = map_option (\<lambda>i stored. stored = i) (cast_ObjectId E v)"

definition User_findById ::
    "env \<Rightarrow> qval \<Rightarrow> world \<Rightarrow> (store_error + user_view option) \<times> world" where
  "User_findById E v w =
     (case id_cond E v of
        Some pid \<Rightarrow>
          (let (down, w1) = store_call w in
           if down then (Inl StoreError, w1)
           else (Inr (map_option select_minus_password
                        (find_one E (\<lambda>x. pid (user_id x)) (users w1))), w1))
      | None \<Rightarrow> (Inl CastError, w))"

text \<open>
  \<^verbatim>\<open>new User({ username, email, password })\<close> followed by \<^verbatim>\<open>save()\<close>: the three paths are
  \<^verbatim>\<open>required\<close> (an empty string fails that validator too, before any database call), and
  \<^verbatim>\<open>username\<close> and \<^verbatim>\<open>email\<close> have a unique index each.
\<close>

fun required_path :: "env \<Rightarrow> qval \<Rightarrow> string option" where
  "required_path E (Plain (JStr s)) = (if s = [] then None else Some s)"
| "required_path E (Plain v) = None"
| "required_path E (JObject ob) =
     (case cast_String E ob of None \<Rightarrow> None | Some s \<Rightarrow> if s = [] then None else Some s)"

definition User_save ::
    "env \<Rightarrow> qval \<Rightarrow> qval \<Rightarrow> qval \<Rightarrow> world \<Rightarrow> (store_error + User) \<times> world" where
  "User_save E u e p w =
     (case (required_path E u, required_path E e, required_path E p) of
        (Some un, Some em, Some pw) \<Rightarrow>
          (let (down, w1) = store_call w in
           if down then (Inl StoreError, w1)
           else if \<exists>x \<in> set (users w1). username x = un \<or> email x = em
             then (Inl DuplicateKey, w1)
           else
             (let newUser = \<lparr>user_id = next_oid w1, username = un, email = em,
                              password = pw, createdAt = clock w1\<rparr>
              in (Inr newUser,
                  w1\<lparr>users := users w1 @ [newUser], next_oid := Suc (next_oid w1)\<rparr>)))
      | _ \<Rightarrow> (Inl ValidationError, w))"

text \<open>
  \<^verbatim>\<open>Message.create(obj)\<close>: the schema is strict (the Mongoose default), so the document
  is built from the schema's paths alone and a key of \<open>obj\<close> that is no path of the
  schema is not stored; \<^verbatim>\<open>timestamp\<close> takes its default \<^verbatim>\<open>Date.now\<close>. No path is
  required, so only the database call can fail.
\<close>

definition Message_create :: "message_input \<Rightarrow> world \<Rightarrow> (store_error + Message) \<times> world" where
  "Message_create inp w =
     (let (down, w1) = store_call w in
      if down then (Inl StoreError, w1)
      else
        (let doc = \<lparr>sessionId = sessionId inp, msg_text = msg_text inp, sender = sender inp,
                    timestamp = clock w1, message_id = next_oid w1\<rparr>
         in (Inr doc, w1\<lparr>messages := messages w1 @ [doc], next_oid := Suc (next_oid w1)\<rparr>)))"

section \<open>The auth middleware\<close>

text \<open>
  \<open>authenticate\<close> answers the request itself (\<open>Inl\<close>) or calls \<^verbatim>\<open>next()\<close> with the
  verified payload in \<^verbatim>\<open>req.user\<close> (\<open>Inr\<close>). It reads the header, the secret and the
  clock, and nothing of the store.
\<close>

definition authenticate :: "env \<Rightarrow> nat \<Rightarrow> string option \<Rightarrow> response + jwt_payload" where
  "authenticate E now hdr =
     (case map_option (replace_first ''Bearer '' []) hdr of
        None \<Rightarrow> Inl (json 401 (ErrorJson ''Access denied''))
      | Some token \<Rightarrow>
          if token = [] then Inl (json 401 (ErrorJson ''Access denied''))
          else (case jwt_verify E token (secret E) now of
                  Inl err \<Rightarrow> Inl (json 400 (ErrorJson ''Invalid token''))
                | Inr verified \<Rightarrow> Inr verified))"

section \<open>The route handlers\<close>

text \<open>
  \<^verbatim>\<open>POST /api/auth/register\<close>. The payload that is signed holds the new user's identifier
  as JSON has it, a string.
\<close>

definition post_register :: "env \<Rightarrow> qobj \<Rightarrow> world \<Rightarrow> response \<times> world" where
  "post_register E b w =
     (let un = qfield b ''username''; em = qfield b ''email''; pw = qfield b ''password'' in
      if \<not> qtruthy un \<or> \<not> qtruthy em \<or> \<not> qtruthy pw
        then (json 400 (ErrorJson ''All fields are required''), w)
      else
        (case User_findOne_or E un em w of
           (Inl err, w1) \<Rightarrow> (json 500 (ErrorJson ''Registration failed''), w1)
         | (Inr (Some existingUser), w1) \<Rightarrow>
             (json 409 (ErrorJson (if Plain (JStr (username existingUser)) = un
                                   then ''Username already exists''
                                   else ''Email already registered'')), w1)
         | (Inr None, w1) \<Rightarrow>
             (case User_save E un em pw w1 of
                (Inl err, w2) \<Rightarrow> (json 500 (ErrorJson ''Registration failed''), w2)
              | (Inr newUser, w2) \<Rightarrow>
                  (let token = jwt_sign E
                         \<lparr>userId = Plain (JStr (toHexString E (user_id newUser))),
                          jwt_username = username newUser\<rparr>
                         (secret E) 3600 (clock w2)
                   in (json 201 (AuthJson True token (user_id newUser) (username newUser)
                                   (email newUser)), w2)))))"

text \<open>\<^verbatim>\<open>POST /api/auth/login\<close>\<close>

definition post_login :: "env \<Rightarrow> qobj \<Rightarrow> world \<Rightarrow> response \<times> world" where
  "post_login E b w =
     (let em = qfield b ''email''; pw = qfield b ''password'' in
      case User_findOne_email E em w of
        (Inl err, w1) \<Rightarrow> (json 500 (ErrorJson ''Login failed''), w1)
      | (Inr None, w1) \<Rightarrow> (json 401 (ErrorJson ''Invalid credentials''), w1)
      | (Inr (Some user), w1) \<Rightarrow>
          if Plain (JStr (password user)) \<noteq> pw
            then (json 401 (ErrorJson ''Invalid credentials''), w1)
          else
            (let token = jwt_sign E
                           \<lparr>userId = Plain (JStr (toHexString E (user_id user))),
                            jwt_username = username user\<rparr>
                           (secret E) 3600 (clock w1)
             in (json 200 (AuthJson True token (user_id user) (username user) (email user)),
                 w1)))"

text \<open>\<^verbatim>\<open>GET /api/auth/me\<close>, after the middleware\<close>

definition get_me :: "env \<Rightarrow> jwt_payload \<Rightarrow> world \<Rightarrow> response \<times> world" where
  "get_me E user w =
     (case User_findById E (userId user) w of
        (Inl err, w1) \<Rightarrow> (json 500 (ErrorJson ''Server error''), w1)
      | (Inr u, w1) \<Rightarrow> (json 200 (UserJson u), w1))"

text \<open>
  \<^verbatim>\<open>POST /api/chat\<close>, after the middleware. The default \<^verbatim>\<open>sessionId = uuidv4()\<close> of the
  destructuring applies when the key reads \<^verbatim>\<open>undefined\<close>, and only then is
  \<^verbatim>\<open>uuidv4\<close> called.
\<close>

definition aiResponse :: "jsval \<Rightarrow> string" where
  "aiResponse message =
     ''I received: '' @ [CHR 0x22] @ to_string message @ [CHR 0x22] @ ''. This is a mock response.''"

definition post_chat :: "env \<Rightarrow> jwt_payload \<Rightarrow> obj \<Rightarrow> world \<Rightarrow> response \<times> world" where
  "post_chat E user b w =
     (let message = field b ''message'';
          (sid, w0) = (case field b ''sessionId'' of
                         JUndefined \<Rightarrow> (JStr (uuidv4 E (uuid_draws w)),
                                        w\<lparr>uuid_draws := Suc (uuid_draws w)\<rparr>)
                       | v \<Rightarrow> (v, w));
          uid = userId user
      in case Message_create \<lparr>sessionId = sid, msg_text = message, sender = JStr ''user'',
                              userId_key = uid\<rparr> w0 of
           (Inl err, w1) \<Rightarrow> (json 500 (ErrorJson ''Chat processing failed''), w1)
         | (Inr m1, w1) \<Rightarrow>
             (case Message_create \<lparr>sessionId = sid, msg_text = JStr (aiResponse message),
                                   sender = JStr ''bot'', userId_key = uid\<rparr> w1 of
                (Inl err, w2) \<Rightarrow> (json 500 (ErrorJson ''Chat processing failed''), w2)
              | (Inr m2, w2) \<Rightarrow> (json 200 (ChatJson (aiResponse message) sid), w2)))"

text \<open>The two protected routes: the middleware, then the handler.\<close>

definition route_me :: "env \<Rightarrow> string option \<Rightarrow> world \<Rightarrow> response \<times> world" where
  "route_me E hdr w =
     (case authenticate E (clock w) hdr of
        Inl res \<Rightarrow> (res, w)
      | Inr user \<Rightarrow> get_me E user w)"

definition route_chat :: "env \<Rightarrow> string option \<Rightarrow> obj \<Rightarrow> world \<Rightarrow> response \<times> world" where
  "route_chat E hdr b w =
     (case authenticate E (clock w) hdr of
        Inl res \<Rightarrow> (res, w)
      | Inr user \<Rightarrow> post_chat E user b w)"

section \<open>What the libraries promise\<close>

text \<open>
  The contract of \<^verbatim>\<open>jsonwebtoken\<close> that the handlers rely on: a token signed with a
  secret over a payload as the handlers build it verifies under the same secret to that
  payload, as long as fewer than \<open>expiresIn\<close> seconds have passed (the clock counts
  milliseconds). The contract of \<^verbatim>\<open>uuid\<close>: identifiers are not empty and no two calls
  return the same one.
\<close>

definition jwt_contract :: "env \<Rightarrow> bool" where
  "jwt_contract E =
     (\<forall>i name s ttl now now'. now' div 1000 < now div 1000 + ttl \<longrightarrow>
        jwt_verify E (jwt_sign E \<lparr>userId = Plain (JStr i), jwt_username = name\<rparr> s ttl now)
          s now' = Inr \<lparr>userId = Plain (JStr i), jwt_username = name\<rparr>)"

definition uuid_contract :: "env \<Rightarrow> bool" where
  "uuid_contract E = (inj (uuidv4 E) \<and> (\<forall>n. uuidv4 E n \<noteq> []))"

text \<open>
  A small set of libraries that keeps both contracts, to run the handlers on concrete
  requests. Its token is the length of the \<^verbatim>\<open>userId\<close> in unary, a \<open>0\<close>, the \<^verbatim>\<open>userId\<close>,
  the secret, a dot and the user name; it never expires a token. Its object identifiers
  are written as runs of \<open>f\<close>. Its database returns the first match in insertion order;
  of the conditions that are not strings it knows \<^verbatim>\<open>undefined\<close> (Mongoose drops such a
  condition, so every document matches), \<^verbatim>\<open>null\<close> (no stored user matches) and the
  operator \<^verbatim>\<open>$gt\<close> on strings, compared byte by byte.
\<close>

definition toy_sign :: "jwt_payload \<Rightarrow> string \<Rightarrow> nat \<Rightarrow> nat \<Rightarrow> string" where
  "toy_sign p s ttl now =
     (case userId p of
        Plain (JStr u) \<Rightarrow>
          replicate (length u) (CHR ''1'') @ CHR ''0'' # u @ s @ CHR ''.'' # jwt_username p
      | _ \<Rightarrow> [])"

definition toy_verify :: "string \<Rightarrow> string \<Rightarrow> nat \<Rightarrow> jwt_error + jwt_payload" where
  "toy_verify token s now =
     (case dropWhile (\<lambda>c. c = CHR ''1'') token of
        [] \<Rightarrow> Inl Malformed
      | c # r \<Rightarrow>
          (let n = length (takeWhile (\<lambda>c. c = CHR ''1'') token) in
           if length r < n then Inl Malformed
           else if prefix (s @ ''.'') (drop n r)
             then Inr \<lparr>userId = Plain (JStr (take n r)),
                       jwt_username = drop (n + Suc (length s)) r\<rparr>
           else Inl BadSignature))"

definition toy_uuidv4 :: "nat \<Rightarrow> string" where
  "toy_uuidv4 n = replicate (Suc n) (CHR ''u'')"

definition toy_toHexString :: "objid \<Rightarrow> string" where
  "toy_toHexString i = replicate (Suc i) (CHR ''f'')"

fun toy_cast_ObjectId :: "qval \<Rightarrow> objid option" where
  "toy_cast_ObjectId (Plain (JStr s)) =
     (if s \<noteq> [] \<and> list_all (\<lambda>c. c = CHR ''f'') s then Some (length s - 1) else None)"
| "toy_cast_ObjectId v = None"

fun str_less :: "string \<Rightarrow> string \<Rightarrow> bool" where
  "str_less xs [] = False"
| "str_less [] (y # ys) = True"
| "str_less (x # xs) (y # ys) =
     ((of_char x :: nat) < of_char y \<or> (x = y \<and> str_less xs ys))"

fun toy_query_cond :: "qval \<Rightarrow> (string \<Rightarrow> bool) option" where
  "toy_query_cond (Plain JUndefined) = Some (\<lambda>stored. True)"
| "toy_query_cond (Plain JNull) = Some (\<lambda>stored. False)"
| "toy_query_cond (JObject [(k, JStr s)]) =
     (if k = ''$gt'' then Some (\<lambda>stored. str_less s stored) else None)"
| "toy_query_cond v = None"

definition toy_env :: env where
  "toy_env = \<lparr>JWT_SECRET = None, jwt_sign = toy_sign, jwt_verify = toy_verify,
               uuidv4 = toy_uuidv4, toHexString = toy_toHexString,
               cast_ObjectId = toy_cast_ObjectId, cast_String = (\<lambda>ob. None),
               query_cond = toy_query_cond, db_pick = (\<lambda>ms. 0)\<rparr>"

definition alice :: User where
  "alice = \<lparr>user_id = 0, username = ''alice'', email = ''a@x.com'', password = ''pw1'',
            createdAt = 0\<rparr>"

definition w0 :: world where
  "w0 = \<lparr>users = [], messages = [], next_oid = 0, clock = 5000, uuid_draws = 0,
         outages = []\<rparr>"

definition w_alice :: world where
  "w_alice = w0\<lparr>users := [alice], next_oid := 1\<rparr>"

definition u_alice :: jwt_payload where
  "u_alice = \<lparr>userId = Plain (JStr ''f''), jwt_username = ''alice''\<rparr>"

definition hello :: obj where
  "hello = [(''message'', JStr ''hello'')]"

section \<open>Facts about the store\<close>

lemma json_simps [simp]: "status (json st b) = st" "body (json st b) = b"
  by (simp_all add: json_def)

lemma store_call_keeps [simp]:
  "users (snd (store_call w)) = users w"
  "messages (snd (store_call w)) = messages w"
  "next_oid (snd (store_call w)) = next_oid w"
  "clock (snd (store_call w)) = clock w"
  "uuid_draws (snd (store_call w)) = uuid_draws w"
  by (simp_all add: store_call_def split: list.splits)

lemma Message_create_eq:
  "Message_create inp w =
     (if fst (store_call w) then (Inl StoreError, snd (store_call w))
      else (Inr \<lparr>sessionId = sessionId inp, msg_text = msg_text inp, sender = sender inp,
                 timestamp = clock w, message_id = next_oid w\<rparr>,
            (snd (store_call w))
              \<lparr>messages := messages w @
                 [\<lparr>sessionId = sessionId inp, msg_text = msg_text inp, sender = sender inp,
                   timestamp = clock w, message_id = next_oid w\<rparr>],
               next_oid := Suc (next_oid w)\<rparr>))"
  by (simp add: Message_create_def Let_def case_prod_beta)

lemma toy_env_jwt_contract: "jwt_contract toy_env"
  unfolding jwt_contract_def toy_env_def toy_sign_def toy_verify_def
  by (simp add: dropWhile_append takeWhile_append)

lemma toy_env_uuid_contract: "uuid_contract toy_env"
  unfolding uuid_contract_def toy_env_def toy_uuidv4_def
  by (auto simp: inj_def dest: arg_cong[where f = length])

section \<open>The chat handler\<close>

lemma chat_success_exact:
  assumes "post_chat E u b w = (r, w')" and "status r = 200"
  shows "messages w' = messages w @
           [\<lparr>sessionId = (case field b ''sessionId'' of
                            JUndefined \<Rightarrow> JStr (uuidv4 E (uuid_draws w)) | v \<Rightarrow> v),
             msg_text = field b ''message'', sender = JStr ''user'',
             timestamp = clock w, message_id = next_oid w\<rparr>,
            \<lparr>sessionId = (case field b ''sessionId'' of
                            JUndefined \<Rightarrow> JStr (uuidv4 E (uuid_draws w)) | v \<Rightarrow> v),
             msg_text = JStr (aiResponse (field b ''message'')), sender = JStr ''bot'',
             timestamp = clock w, message_id = Suc (next_oid w)\<rparr>]"
    and "r = json 200 (ChatJson (aiResponse (field b ''message''))
                (case field b ''sessionId'' of
                   JUndefined \<Rightarrow> JStr (uuidv4 E (uuid_draws w)) | v \<Rightarrow> v))"
  using assms
  unfolding post_chat_def Message_create_eq
  by (auto simp: Let_def split: jsval.splits if_splits)

lemma chat_draws:
  "uuid_draws (snd (post_chat E u b w)) =
     (if field b ''sessionId'' = JUndefined then Suc (uuid_draws w) else uuid_draws w)"
  unfolding post_chat_def Message_create_eq
  by (auto simp: Let_def split: jsval.splits if_splits)

lemmas toy_defs = toy_env_def toy_sign_def toy_verify_def toy_uuidv4_def toy_toHexString_def
  w_alice_def w0_def alice_def u_alice_def hello_def field_def qfield_def secret_def

lemmas chat_run = post_chat_def Message_create_eq store_call_def Let_def

text \<open>
  Claim C1 says that both messages a successful chat call persists carry a \<^verbatim>\<open>userId\<close>
  equal to the identity of the authenticated caller. The handler does put \<^verbatim>\<open>userId\<close>
  into the object it gives to \<^verbatim>\<open>Message.create\<close>, but the \<^verbatim>\<open>Message\<close> schema has no such
  path, so nothing of the caller's identity is stored: the response and the whole world
  after a chat call, the message log included, are the same whoever the caller is.
\<close>

theorem chat_log_ignores_caller:
  "post_chat E u1 b w = post_chat E u2 b w"
  by (simp add: post_chat_def Message_create_eq Let_def split: jsval.splits)

text \<open>
  The log after alice's first message, on a store that accepts both writes: the two
  documents have the paths of the schema and no other.
\<close>

lemma chat_log_of_hello:
  "messages (snd (post_chat toy_env u_alice hello w_alice)) =
     [\<lparr>sessionId = JStr ''u'', msg_text = JStr ''hello'', sender = JStr ''user'',
       timestamp = 5000, message_id = 1\<rparr>,
      \<lparr>sessionId = JStr ''u'', msg_text = JStr (aiResponse (JStr ''hello'')),
       sender = JStr ''bot'', timestamp = 5000, message_id = 2\<rparr>]"
  by (simp add: chat_run toy_defs)

text \<open>
  Claim C2: a chat call that succeeds appends exactly two messages, the first from
  \<^verbatim>\<open>user\<close> with the input message as its text, the second from \<^verbatim>\<open>bot\<close> with the computed
  response; both have the session identifier that is returned. A session identifier
  given in the body is the one used. When the body omits it, the identifier is the one
  \<^verbatim>\<open>uuidv4\<close> has just drawn; under the contract of \<^verbatim>\<open>uuid\<close> it is not empty, and every
  later successful call that omits the key again returns a different one.
\<close>

theorem chat_appends_user_then_bot:
  assumes "post_chat E u b w = (r, w')" and "status r = 200"
  shows "\<exists>m1 m2 sid.
           messages w' = messages w @ [m1, m2]
         \<and> sender m1 = JStr ''user'' \<and> msg_text m1 = field b ''message''
         \<and> sender m2 = JStr ''bot'' \<and> msg_text m2 = JStr (aiResponse (field b ''message''))
         \<and> sessionId m1 = sid \<and> sessionId m2 = sid
         \<and> body r = ChatJson (aiResponse (field b ''message'')) sid
         \<and> (field b ''sessionId'' \<noteq> JUndefined \<longrightarrow> sid = field b ''sessionId'')
         \<and> (field b ''sessionId'' = JUndefined \<and> uuid_contract E \<longrightarrow>
               sid = JStr (uuidv4 E (uuid_draws w)) \<and> sid \<noteq> JStr []
             \<and> uuid_draws w' = Suc (uuid_draws w)
             \<and> (\<forall>u2 b2 w2 r2 w2'.
                   uuid_draws w' \<le> uuid_draws w2 \<and> field b2 ''sessionId'' = JUndefined
                   \<and> post_chat E u2 b2 w2 = (r2, w2') \<and> status r2 = 200
                   \<longrightarrow> (\<exists>s2 sid2. body r2 = ChatJson s2 sid2 \<and> sid2 \<noteq> sid \<and> sid2 \<noteq> JStr [])))"
proof -
  let ?sid = "case field b ''sessionId'' of
                JUndefined \<Rightarrow> JStr (uuidv4 E (uuid_draws w)) | v \<Rightarrow> v"
  note ex = chat_success_exact[OF assms]
  have draws: "uuid_draws w' = (if field b ''sessionId'' = JUndefined
                                then Suc (uuid_draws w) else uuid_draws w)"
    using chat_draws[of E u b w] assms(1) by simp
  have given: "field b ''sessionId'' \<noteq> JUndefined \<longrightarrow> ?sid = field b ''sessionId''"
    by (simp split: jsval.splits)
  have fresh: "field b ''sessionId'' = JUndefined \<and> uuid_contract E \<longrightarrow>
               ?sid = JStr (uuidv4 E (uuid_draws w)) \<and> ?sid \<noteq> JStr []
             \<and> uuid_draws w' = Suc (uuid_draws w)
             \<and> (\<forall>u2 b2 w2 r2 w2'.
                   uuid_draws w' \<le> uuid_draws w2 \<and> field b2 ''sessionId'' = JUndefined
                   \<and> post_chat E u2 b2 w2 = (r2, w2') \<and> status r2 = 200
                   \<longrightarrow> (\<exists>s2 sid2. body r2 = ChatJson s2 sid2 \<and> sid2 \<noteq> ?sid \<and> sid2 \<noteq> JStr []))"
  proof (intro impI, elim conjE)
    assume omitted: "field b ''sessionId'' = JUndefined" and lib: "uuid_contract E"
    from lib have inj: "inj (uuidv4 E)" and ne: "\<And>n. uuidv4 E n \<noteq> []"
      by (simp_all add: uuid_contract_def)
    have sid: "?sid = JStr (uuidv4 E (uuid_draws w))" using omitted by simp
    have later: "\<exists>s2 sid2. body r2 = ChatJson s2 sid2 \<and> sid2 \<noteq> ?sid \<and> sid2 \<noteq> JStr []"
      if h: "uuid_draws w' \<le> uuid_draws w2" "field b2 ''sessionId'' = JUndefined"
            "post_chat E u2 b2 w2 = (r2, w2')" "status r2 = 200"
      for u2 b2 w2 r2 w2'
    proof -
      have r2: "r2 = json 200 (ChatJson (aiResponse (field b2 ''message''))
                        (JStr (uuidv4 E (uuid_draws w2))))"
        using chat_success_exact(2)[OF h(3) h(4)] h(2) by simp
      have "uuid_draws w2 \<noteq> uuid_draws w" using h(1) draws omitted by simp
      then have "uuidv4 E (uuid_draws w2) \<noteq> uuidv4 E (uuid_draws w)"
        using inj by (auto dest: injD)
      then show ?thesis using r2 sid ne by simp
    qed
    show "?sid = JStr (uuidv4 E (uuid_draws w)) \<and> ?sid \<noteq> JStr []
             \<and> uuid_draws w' = Suc (uuid_draws w)
             \<and> (\<forall>u2 b2 w2 r2 w2'.
                   uuid_draws w' \<le> uuid_draws w2 \<and> field b2 ''sessionId'' = JUndefined
                   \<and> post_chat E u2 b2 w2 = (r2, w2') \<and> status r2 = 200
                   \<longrightarrow> (\<exists>s2 sid2. body r2 = ChatJson s2 sid2 \<and> sid2 \<noteq> ?sid \<and> sid2 \<noteq> JStr []))"
      using sid ne draws omitted later by (intro conjI allI impI) auto
  qed
  define m1 where "m1 = \<lparr>sessionId = ?sid, msg_text = field b ''message'',
             sender = JStr ''user'', timestamp = clock w, message_id = next_oid w\<rparr>"
  define m2 where "m2 = \<lparr>sessionId = ?sid,
             msg_text = JStr (aiResponse (field b ''message'')), sender = JStr ''bot'',
             timestamp = clock w, message_id = Suc (next_oid w)\<rparr>"
  have log: "messages w' = messages w @ [m1, m2]"
    using ex(1) by (simp add: m1_def m2_def)
  have m1: "sender m1 = JStr ''user''" "msg_text m1 = field b ''message''" "sessionId m1 = ?sid"
    by (simp_all add: m1_def)
  have m2: "sender m2 = JStr ''bot''" "msg_text m2 = JStr (aiResponse (field b ''message''))"
    "sessionId m2 = ?sid"
    by (simp_all add: m2_def)
  have res: "body r = ChatJson (aiResponse (field b ''message'')) ?sid"
    using ex(2) by simp
  from log m1 m2 res given fresh show ?thesis by blast
qed

theorem chat_appends_user_then_bot_witness:
  "status (fst (post_chat toy_env u_alice hello w_alice)) = 200
 \<and> field hello ''sessionId'' = JUndefined \<and> uuid_contract toy_env
 \<and> status (fst (post_chat toy_env u_alice hello
              (snd (post_chat toy_env u_alice hello w_alice)))) = 200
 \<and> (\<exists>m1 m2. messages (snd (post_chat toy_env u_alice hello w_alice)) = [m1, m2]
       \<and> sender m1 = JStr ''user'' \<and> msg_text m1 = JStr ''hello''
       \<and> sender m2 = JStr ''bot'' \<and> msg_text m2 = JStr (aiResponse (JStr ''hello''))
       \<and> sessionId m1 = JStr ''u'' \<and> sessionId m2 = JStr ''u'')
 \<and> (\<exists>s2 sid2. body (fst (post_chat toy_env u_alice hello
                     (snd (post_chat toy_env u_alice hello w_alice)))) = ChatJson s2 sid2
       \<and> sid2 \<noteq> JStr ''u'')"
proof -
  let ?first = "post_chat toy_env u_alice hello w_alice"
  let ?second = "post_chat toy_env u_alice hello (snd ?first)"
  have ok1: "status (fst ?first) = 200"
    by (simp add: chat_run toy_defs)
  have ok2: "status (fst ?second) = 200"
    by (simp add: chat_run toy_defs)
  have omitted: "field hello ''sessionId'' = JUndefined"
    by (simp add: toy_defs)
  have sid: "uuidv4 toy_env (uuid_draws w_alice) = ''u''" and log: "messages w_alice = []"
    and msg: "field hello ''message'' = JStr ''hello''"
    by (simp_all add: toy_defs)
  from chat_appends_user_then_bot[OF surjective_pairing ok1]
  obtain m1 m2 sid where first:
    "messages (snd ?first) = messages w_alice @ [m1, m2]"
    "sender m1 = JStr ''user''" "msg_text m1 = field hello ''message''"
    "sender m2 = JStr ''bot''" "msg_text m2 = JStr (aiResponse (field hello ''message''))"
    "sessionId m1 = sid" "sessionId m2 = sid"
    and fresh: "field hello ''sessionId'' = JUndefined \<and> uuid_contract toy_env \<longrightarrow>
               sid = JStr (uuidv4 toy_env (uuid_draws w_alice)) \<and> sid \<noteq> JStr []
             \<and> uuid_draws (snd ?first) = Suc (uuid_draws w_alice)
             \<and> (\<forall>u2 b2 w2 r2 w2'.
                   uuid_draws (snd ?first) \<le> uuid_draws w2 \<and> field b2 ''sessionId'' = JUndefined
                   \<and> post_chat toy_env u2 b2 w2 = (r2, w2') \<and> status r2 = 200
                   \<longrightarrow> (\<exists>s2 sid2. body r2 = ChatJson s2 sid2 \<and> sid2 \<noteq> sid \<and> sid2 \<noteq> JStr []))"
    by blast
  from fresh omitted toy_env_uuid_contract
  have sid_eq: "sid = JStr ''u''"
    and later: "\<And>u2 b2 w2 r2 w2'.
                   uuid_draws (snd ?first) \<le> uuid_draws w2 \<and> field b2 ''sessionId'' = JUndefined
                   \<and> post_chat toy_env u2 b2 w2 = (r2, w2') \<and> status r2 = 200
                   \<Longrightarrow> (\<exists>s2 sid2. body r2 = ChatJson s2 sid2 \<and> sid2 \<noteq> sid \<and> sid2 \<noteq> JStr [])"
    using sid by blast+
  have "\<exists>s2 sid2. body (fst ?second) = ChatJson s2 sid2 \<and> sid2 \<noteq> sid \<and> sid2 \<noteq> JStr []"
    by (rule later[of "snd ?first" hello u_alice "fst ?second" "snd ?second"])
       (simp add: omitted ok2)
  with first sid_eq log msg ok1 ok2 omitted toy_env_uuid_contract show ?thesis
    by auto
qed

text \<open>
  Claim C6: a store failure during either append makes the chat call answer 500 with
  the chat-processing error. When the first append is rejected nothing is stored; when
  the first goes through and the second is rejected, the user's message stays in the log.
\<close>

theorem chat_store_failure_500:
  "(outages w = True # bs \<longrightarrow>
      fst (post_chat E u b w) = json 500 (ErrorJson ''Chat processing failed'')
    \<and> messages (snd (post_chat E u b w)) = messages w)
 \<and> (outages w = False # True # bs \<longrightarrow>
      fst (post_chat E u b w) = json 500 (ErrorJson ''Chat processing failed'')
    \<and> messages (snd (post_chat E u b w)) = messages w @
         [\<lparr>sessionId = (case field b ''sessionId'' of
                          JUndefined \<Rightarrow> JStr (uuidv4 E (uuid_draws w)) | v \<Rightarrow> v),
           msg_text = field b ''message'', sender = JStr ''user'',
           timestamp = clock w, message_id = next_oid w\<rparr>])"
  by (simp add: chat_run split: jsval.splits)

theorem chat_store_failure_500_witness:
  "outages (w_alice\<lparr>outages := [True]\<rparr>) = True # []
 \<and> status (fst (post_chat toy_env u_alice hello (w_alice\<lparr>outages := [True]\<rparr>))) = 500
 \<and> messages (snd (post_chat toy_env u_alice hello (w_alice\<lparr>outages := [True]\<rparr>))) = []
 \<and> outages (w_alice\<lparr>outages := [False, True]\<rparr>) = False # True # []
 \<and> status (fst (post_chat toy_env u_alice hello (w_alice\<lparr>outages := [False, True]\<rparr>))) = 500
 \<and> messages (snd (post_chat toy_env u_alice hello (w_alice\<lparr>outages := [False, True]\<rparr>))) =
      [\<lparr>sessionId = JStr ''u'', msg_text = JStr ''hello'', sender = JStr ''user'',
        timestamp = 5000, message_id = 1\<rparr>]"
  using chat_store_failure_500[of "w_alice\<lparr>outages := [True]\<rparr>" "[]" toy_env u_alice hello]
        chat_store_failure_500[of "w_alice\<lparr>outages := [False, True]\<rparr>" "[]" toy_env u_alice hello]
  by (simp add: toy_defs)

text \<open>
  Claim C7: the response string of a chat call is a function of the message text alone.
  Any two successful calls with the same message, whatever the libraries, callers, session
  identifiers and worlds, return the same string \<open>aiResponse message\<close>, and the message
  text occurs in that string.
\<close>

theorem chat_response_function_of_text:
  assumes "post_chat E1 u1 b1 w1 = (r1, w1')" and "status r1 = 200"
      and "post_chat E2 u2 b2 w2 = (r2, w2')" and "status r2 = 200"
      and "field b1 ''message'' = field b2 ''message''"
  shows "\<exists>s sid1 sid2. body r1 = ChatJson s sid1 \<and> body r2 = ChatJson s sid2
           \<and> s = aiResponse (field b1 ''message'')
           \<and> sublist (to_string (field b1 ''message'')) s"
proof -
  have "sublist (to_string (field b1 ''message'')) (aiResponse (field b1 ''message''))"
    unfolding aiResponse_def sublist_def by (metis append.assoc)
  then show ?thesis
    using chat_success_exact(2)[OF assms(1,2)] chat_success_exact(2)[OF assms(3,4)] assms(5)
    by simp
qed

theorem chat_response_function_of_text_witness:
  "status (fst (post_chat toy_env u_alice hello w_alice)) = 200
 \<and> status (fst (post_chat toy_env \<lparr>userId = Plain (JStr ''abc''), jwt_username = ''bob''\<rparr>
              [(''sessionId'', JStr ''s1''), (''message'', JStr ''hello'')] w0)) = 200
 \<and> (\<exists>s sid1 sid2.
        body (fst (post_chat toy_env u_alice hello w_alice)) = ChatJson s sid1
      \<and> body (fst (post_chat toy_env \<lparr>userId = Plain (JStr ''abc''), jwt_username = ''bob''\<rparr>
              [(''sessionId'', JStr ''s1''), (''message'', JStr ''hello'')] w0)) = ChatJson s sid2
      \<and> sublist ''hello'' s)"
proof -
  let ?b2 = "[(''sessionId'', JStr ''s1''), (''message'', JStr ''hello'')]"
  let ?c1 = "post_chat toy_env u_alice hello w_alice"
  let ?c2 = "post_chat toy_env \<lparr>userId = Plain (JStr ''abc''), jwt_username = ''bob''\<rparr> ?b2 w0"
  have ok1: "status (fst ?c1) = 200" by (simp add: chat_run toy_defs)
  have ok2: "status (fst ?c2) = 200" by (simp add: chat_run toy_defs)
  have same: "field hello ''message'' = field ?b2 ''message''" by (simp add: toy_defs)
  have msg: "to_string (field hello ''message'') = ''hello''" by (simp add: toy_defs)
  from chat_response_function_of_text[OF surjective_pairing ok1 surjective_pairing ok2 same]
  show ?thesis using ok1 ok2 msg by auto
qed

text \<open>
  Claim C8: \<^verbatim>\<open>uuidv4\<close> is called exactly when the key \<^verbatim>\<open>sessionId\<close> reads \<^verbatim>\<open>undefined\<close>.
  Any other value, \<^verbatim>\<open>null\<close> and the empty string included, is not replaced: a successful
  call stores it in both messages and returns it.
\<close>

theorem sessionId_defaulted_only_when_undefined:
  "(field b ''sessionId'' = JUndefined) =
     (uuid_draws (snd (post_chat E u b w)) = Suc (uuid_draws w))
 \<and> (field b ''sessionId'' \<noteq> JUndefined \<longrightarrow>
      uuid_draws (snd (post_chat E u b w)) = uuid_draws w
    \<and> (status (fst (post_chat E u b w)) = 200 \<longrightarrow>
         (\<exists>m1 m2. messages (snd (post_chat E u b w)) = messages w @ [m1, m2]
             \<and> sessionId m1 = field b ''sessionId'' \<and> sessionId m2 = field b ''sessionId'')
       \<and> body (fst (post_chat E u b w)) =
           ChatJson (aiResponse (field b ''message'')) (field b ''sessionId'')))"
proof -
  have draws: "(field b ''sessionId'' = JUndefined) =
     (uuid_draws (snd (post_chat E u b w)) = Suc (uuid_draws w))"
    by (simp add: chat_draws)
  have kept: "uuid_draws (snd (post_chat E u b w)) = uuid_draws w"
    if "field b ''sessionId'' \<noteq> JUndefined"
    using that by (simp add: chat_draws)
  have used: "(\<exists>m1 m2. messages (snd (post_chat E u b w)) = messages w @ [m1, m2]
             \<and> sessionId m1 = field b ''sessionId'' \<and> sessionId m2 = field b ''sessionId'')
       \<and> body (fst (post_chat E u b w)) =
           ChatJson (aiResponse (field b ''message'')) (field b ''sessionId'')"
    if given: "field b ''sessionId'' \<noteq> JUndefined"
      and ok: "status (fst (post_chat E u b w)) = 200"
  proof -
    have sid: "(case field b ''sessionId'' of
                  JUndefined \<Rightarrow> JStr (uuidv4 E (uuid_draws w)) | v \<Rightarrow> v) = field b ''sessionId''"
      using given by (simp split: jsval.splits)
    note ex = chat_success_exact[OF surjective_pairing ok]
    show ?thesis using ex sid by simp
  qed
  from draws kept used show ?thesis by blast
qed

theorem sessionId_defaulted_only_when_undefined_witness:
  "field [(''message'', JStr ''hi''), (''sessionId'', JNull)] ''sessionId'' \<noteq> JUndefined
 \<and> status (fst (post_chat toy_env u_alice [(''message'', JStr ''hi''), (''sessionId'', JNull)]
               w_alice)) = 200
 \<and> body (fst (post_chat toy_env u_alice [(''message'', JStr ''hi''), (''sessionId'', JNull)]
               w_alice)) = ChatJson (aiResponse (JStr ''hi'')) JNull
 \<and> field [(''message'', JStr ''hi''), (''sessionId'', JStr [])] ''sessionId'' \<noteq> JUndefined
 \<and> status (fst (post_chat toy_env u_alice [(''message'', JStr ''hi''), (''sessionId'', JStr [])]
               w_alice)) = 200
 \<and> body (fst (post_chat toy_env u_alice [(''message'', JStr ''hi''), (''sessionId'', JStr [])]
               w_alice)) = ChatJson (aiResponse (JStr ''hi'')) (JStr [])
 \<and> (\<exists>m1 m2. messages (snd (post_chat toy_env u_alice
                  [(''message'', JStr ''hi''), (''sessionId'', JStr [])] w_alice)) = [m1, m2]
       \<and> sessionId m1 = JStr [] \<and> sessionId m2 = JStr [])
 \<and> uuid_draws (snd (post_chat toy_env u_alice
                  [(''message'', JStr ''hi''), (''sessionId'', JStr [])] w_alice)) = 0"
proof -
  let ?bn = "[(''message'', JStr ''hi''), (''sessionId'', JNull)]"
  let ?be = "[(''message'', JStr ''hi''), (''sessionId'', JStr [])]"
  have fn: "field ?bn ''sessionId'' = JNull" "field ?bn ''message'' = JStr ''hi''"
    and fe: "field ?be ''sessionId'' = JStr []" "field ?be ''message'' = JStr ''hi''"
    by (simp_all add: field_def)
  have okn: "status (fst (post_chat toy_env u_alice ?bn w_alice)) = 200"
    by (simp add: chat_run toy_defs)
  have oke: "status (fst (post_chat toy_env u_alice ?be w_alice)) = 200"
    by (simp add: chat_run toy_defs)
  have w: "messages w_alice = []" "uuid_draws w_alice = 0" by (simp_all add: toy_defs)
  show ?thesis
    using sessionId_defaulted_only_when_undefined[of ?bn toy_env u_alice w_alice]
          sessionId_defaulted_only_when_undefined[of ?be toy_env u_alice w_alice]
          okn oke
    unfolding fn fe w by simp
qed

section \<open>The auth middleware and the protected routes\<close>



lemma authenticate_token:
  "authenticate E now (Some h) =
     (if replace_first ''Bearer '' [] h = [] then Inl (json 401 (ErrorJson ''Access denied''))
      else case jwt_verify E (replace_first ''Bearer '' [] h) (secret E) now of
             Inl err \<Rightarrow> Inl (json 400 (ErrorJson ''Invalid token''))
           | Inr verified \<Rightarrow> Inr verified)"
  by (simp add: authenticate_def)

text \<open>
  Claim C3: on both protected routes the middleware answers 401 (access denied) when
  there is no credential, that is, when the header is missing or nothing is left of it
  once \<^verbatim>\<open>Bearer \<close> is stripped; it answers 400 (invalid token) when \<^verbatim>\<open>jwt.verify\<close> rejects
  the token, whatever the reason; and otherwise it hands the decoded payload to the
  handler. In the first two cases the world is returned untouched; in the third the
  handler starts from the world as the request found it: the middleware makes no call to
  the store.
\<close>

theorem gate_401_400_next:
  "authenticate E now None = Inl (json 401 (ErrorJson ''Access denied''))
 \<and> (replace_first ''Bearer '' [] h = [] \<longrightarrow>
      authenticate E now (Some h) = Inl (json 401 (ErrorJson ''Access denied'')))
 \<and> (replace_first ''Bearer '' [] h \<noteq> []
      \<and> jwt_verify E (replace_first ''Bearer '' [] h) (secret E) now = Inl err \<longrightarrow>
      authenticate E now (Some h) = Inl (json 400 (ErrorJson ''Invalid token'')))
 \<and> (replace_first ''Bearer '' [] h \<noteq> []
      \<and> jwt_verify E (replace_first ''Bearer '' [] h) (secret E) now = Inr p \<longrightarrow>
      authenticate E now (Some h) = Inr p)
 \<and> (authenticate E (clock w) hdr = Inl res \<longrightarrow>
      route_chat E hdr b w = (res, w) \<and> route_me E hdr w = (res, w))
 \<and> (authenticate E (clock w) hdr = Inr p \<longrightarrow>
      route_chat E hdr b w = post_chat E p b w \<and> route_me E hdr w = get_me E p w)"
  by (simp add: authenticate_token route_chat_def route_me_def)
     (simp add: authenticate_def)

theorem gate_401_400_next_witness:
  "replace_first ''Bearer '' [] ''Bearer '' = []
 \<and> authenticate toy_env 5000 (Some ''Bearer '') = Inl (json 401 (ErrorJson ''Access denied''))
 \<and> replace_first ''Bearer '' [] ''Bearer garbage'' \<noteq> []
 \<and> jwt_verify toy_env (replace_first ''Bearer '' [] ''Bearer garbage'') (secret toy_env) 5000
      = Inl BadSignature
 \<and> authenticate toy_env 5000 (Some ''Bearer garbage'')
      = Inl (json 400 (ErrorJson ''Invalid token''))
 \<and> jwt_verify toy_env (replace_first ''Bearer '' [] ''Bearer 10fyour-secret-key.alice'')
      (secret toy_env) 5000 = Inr u_alice
 \<and> authenticate toy_env (clock w_alice) (Some ''Bearer 10fyour-secret-key.alice'') = Inr u_alice
 \<and> route_chat toy_env (Some ''Bearer 10fyour-secret-key.alice'') hello w_alice
      = post_chat toy_env u_alice hello w_alice
 \<and> authenticate toy_env (clock w_alice) None = Inl (json 401 (ErrorJson ''Access denied''))
 \<and> route_chat toy_env None hello w_alice = (json 401 (ErrorJson ''Access denied''), w_alice)
 \<and> route_me toy_env None w_alice = (json 401 (ErrorJson ''Access denied''), w_alice)"
proof -
  have e: "replace_first ''Bearer '' [] ''Bearer '' = []"
    and g: "replace_first ''Bearer '' [] ''Bearer garbage'' = ''garbage''"
    and a: "replace_first ''Bearer '' [] ''Bearer 10fyour-secret-key.alice''
              = ''10fyour-secret-key.alice''"
    by simp_all
  have vg: "jwt_verify toy_env ''garbage'' (secret toy_env) 5000 = Inl BadSignature"
    and va: "jwt_verify toy_env ''10fyour-secret-key.alice'' (secret toy_env) 5000 = Inr u_alice"
    by (simp_all add: toy_defs)
  have clk: "clock w_alice = 5000" by (simp add: toy_defs)
  show ?thesis
    using gate_401_400_next[of toy_env 5000 "''Bearer ''"]
          gate_401_400_next[of toy_env 5000 "''Bearer garbage''" BadSignature]
          gate_401_400_next[of toy_env 5000 "''Bearer 10fyour-secret-key.alice''" _ u_alice
                               w_alice "Some ''Bearer 10fyour-secret-key.alice''" _ hello]
          gate_401_400_next[of toy_env 5000 _ _ _ w_alice None
                               "json 401 (ErrorJson ''Access denied'')" hello]
    unfolding e g a clk using vg va by simp
qed



lemma find_one_SomeD: "find_one E P us = Some x \<Longrightarrow> x \<in> set us \<and> P x"
proof -
  assume h: "find_one E P us = Some x"
  then obtain m ms where f: "filter P us = m # ms"
    and x: "x = (m # ms) ! (db_pick E (m # ms) mod length (m # ms))"
    by (auto simp: find_one_def split: list.splits)
  have "x \<in> set (m # ms)" unfolding x by (rule nth_mem) simp
  then have "x \<in> set (filter P us)" by (simp only: f)
  then show ?thesis by simp
qed

lemma find_one_None_iff: "find_one E P us = None \<longleftrightarrow> (\<forall>x \<in> set us. \<not> P x)"
proof (cases "filter P us")
  case Nil
  then show ?thesis by (simp add: find_one_def filter_empty_conv)
next
  case (Cons m ms)
  then have "m \<in> set (filter P us)" by simp
  then have "\<exists>x \<in> set us. P x" by auto
  with Cons show ?thesis by (simp add: find_one_def)
qed

lemma find_one_single: "filter P us = [y] \<Longrightarrow> find_one E P us = Some y"
  by (simp add: find_one_def)



lemma get_me_eq:
  "get_me E p w =
     (case id_cond E (userId p) of
        None \<Rightarrow> (json 500 (ErrorJson ''Server error''), w)
      | Some pid \<Rightarrow>
          if fst (store_call w) then (json 500 (ErrorJson ''Server error''), snd (store_call w))
          else (json 200 (UserJson (map_option select_minus_password
                                     (find_one E (\<lambda>x. pid (user_id x)) (users w)))),
                snd (store_call w)))"
  by (simp add: get_me_def User_findById_def Let_def case_prod_beta split: option.splits)




section \<open>Registration and login\<close>

lemma User_findOne_or_eq:
  "User_findOne_or E u e w =
     (case (path_cond E u, path_cond E e) of
        (Some pu, Some pe) \<Rightarrow>
          if fst (store_call w) then (Inl StoreError, snd (store_call w))
          else (Inr (find_one E (\<lambda>x. pu (username x) \<or> pe (email x)) (users w)),
                snd (store_call w))
      | _ \<Rightarrow> (Inl CastError, w))"
  by (simp add: User_findOne_or_def Let_def case_prod_beta split: option.splits)

lemma User_findOne_email_eq:
  "User_findOne_email E e w =
     (case path_cond E e of
        Some pe \<Rightarrow>
          if fst (store_call w) then (Inl StoreError, snd (store_call w))
          else (Inr (find_one E (\<lambda>x. pe (email x)) (users w)), snd (store_call w))
      | None \<Rightarrow> (Inl CastError, w))"
  by (simp add: User_findOne_email_def Let_def case_prod_beta split: option.splits)








lemma post_login_eq:
  "post_login E b w =
     (case path_cond E (qfield b ''email'') of
        None \<Rightarrow> (json 500 (ErrorJson ''Login failed''), w)
      | Some pe \<Rightarrow>
          if fst (store_call w) then (json 500 (ErrorJson ''Login failed''), snd (store_call w))
          else case find_one E (\<lambda>x. pe (email x)) (users w) of
             None \<Rightarrow> (json 401 (ErrorJson ''Invalid credentials''), snd (store_call w))
           | Some user \<Rightarrow>
               if Plain (JStr (password user)) \<noteq> qfield b ''password''
                 then (json 401 (ErrorJson ''Invalid credentials''), snd (store_call w))
               else (json 200 (AuthJson True
                        (jwt_sign E \<lparr>userId = Plain (JStr (toHexString E (user_id user))),
                                     jwt_username = username user\<rparr>
                           (secret E) 3600 (clock w))
                        (user_id user) (username user) (email user)), snd (store_call w)))"
  by (simp add: post_login_def User_findOne_email_eq Let_def split: option.splits)

text \<open>
  Claim C5, as the code has it. A login whose lookup the store rejects is answered with
  500. For an e-mail address that is a string and a store that answers: when no user has
  that address, or the stored password of the user found differs from the given one (the
  two are compared as they are), the answer is 401; when they are equal the answer is 200
  with \<^verbatim>\<open>success\<close>, a token and the user's identifier, name and e-mail address. The token
  is signed over that user's identifier and name, so under the contract of
  \<^verbatim>\<open>jsonwebtoken\<close> it decodes, for the next hour, to a payload whose \<^verbatim>\<open>username\<close> is the
  registered one. No login changes the users. What a login answers when \<^verbatim>\<open>email\<close> is not
  a string is left open here.
\<close>

theorem login_outcomes:
  "(fst (store_call w) \<longrightarrow> fst (post_login E b w) = json 500 (ErrorJson ''Login failed''))
 \<and> (qfield b ''email'' = Plain (JStr e) \<and> \<not> fst (store_call w)
      \<and> (\<forall>x \<in> set (users w). email x \<noteq> e) \<longrightarrow>
      fst (post_login E b w) = json 401 (ErrorJson ''Invalid credentials''))
 \<and> (qfield b ''email'' = Plain (JStr e) \<and> \<not> fst (store_call w)
      \<and> find_one E (\<lambda>x. email x = e) (users w) = Some user
      \<and> Plain (JStr (password user)) \<noteq> qfield b ''password'' \<longrightarrow>
      fst (post_login E b w) = json 401 (ErrorJson ''Invalid credentials''))
 \<and> (qfield b ''email'' = Plain (JStr e) \<and> \<not> fst (store_call w)
      \<and> find_one E (\<lambda>x. email x = e) (users w) = Some user
      \<and> Plain (JStr (password user)) = qfield b ''password'' \<longrightarrow>
      email user = e
    \<and> (\<exists>token. fst (post_login E b w) =
                 json 200 (AuthJson True token (user_id user) (username user) (email user))
         \<and> token = jwt_sign E \<lparr>userId = Plain (JStr (toHexString E (user_id user))),
                                jwt_username = username user\<rparr> (secret E) 3600 (clock w)
         \<and> (jwt_contract E \<longrightarrow>
              (\<forall>now. now div 1000 < clock w div 1000 + 3600 \<longrightarrow>
                 (\<exists>p. jwt_verify E token (secret E) now = Inr p
                     \<and> jwt_username p = username user)))))
 \<and> users (snd (post_login E b w)) = users w"
proof -
  have decode: "\<exists>p. jwt_verify E (jwt_sign E \<lparr>userId = Plain (JStr (toHexString E (user_id user))),
                        jwt_username = username user\<rparr> (secret E) 3600 (clock w))
                      (secret E) now = Inr p
                  \<and> jwt_username p = username user"
    if "jwt_contract E" and "now div 1000 < clock w div 1000 + 3600" for now
    using that by (simp add: jwt_contract_def)
  have kept: "users (snd (post_login E b w)) = users w"
    by (simp add: post_login_eq split: option.splits)
  have failed: "fst (post_login E b w) = json 500 (ErrorJson ''Login failed'')"
    if "fst (store_call w)"
    using that by (simp add: post_login_eq split: option.splits)
  have nobody: "find_one E (\<lambda>x. email x = e) (users w) = None"
    if "\<forall>x \<in> set (users w). email x \<noteq> e"
    using that by (simp add: find_one_None_iff)
  have who: "email user = e" if "find_one E (\<lambda>x. email x = e) (users w) = Some user"
    using find_one_SomeD[OF that] by simp
  show ?thesis
    using decode kept failed nobody who by (auto simp: post_login_eq)
qed

theorem login_outcomes_witness:
  "\<not> fst (store_call w_alice)
 \<and> find_one toy_env (\<lambda>x. email x = ''a@x.com'') (users w_alice) = Some alice
 \<and> fst (post_login toy_env
          [(''email'', Plain (JStr ''a@x.com'')), (''password'', Plain (JStr ''pw1''))] w_alice)
     = json 200 (AuthJson True ''10fyour-secret-key.alice'' 0 ''alice'' ''a@x.com'')
 \<and> jwt_contract toy_env
 \<and> (\<exists>p. jwt_verify toy_env ''10fyour-secret-key.alice'' (secret toy_env) 6000 = Inr p
        \<and> jwt_username p = ''alice'')
 \<and> fst (post_login toy_env
          [(''email'', Plain (JStr ''a@x.com'')), (''password'', Plain (JStr ''wrong''))] w_alice)
     = json 401 (ErrorJson ''Invalid credentials'')
 \<and> fst (post_login toy_env
          [(''email'', Plain (JStr ''z@x.com'')), (''password'', Plain (JStr ''pw1''))] w_alice)
     = json 401 (ErrorJson ''Invalid credentials'')
 \<and> fst (store_call (w_alice\<lparr>outages := [True]\<rparr>))
 \<and> fst (post_login toy_env
          [(''email'', Plain (JStr ''a@x.com'')), (''password'', Plain (JStr ''pw1''))]
          (w_alice\<lparr>outages := [True]\<rparr>)) = json 500 (ErrorJson ''Login failed'')"
proof -
  let ?good = "[(''email'', Plain (JStr ''a@x.com'')), (''password'', Plain (JStr ''pw1''))]"
  let ?wrong = "[(''email'', Plain (JStr ''a@x.com'')), (''password'', Plain (JStr ''wrong''))]"
  let ?nobody = "[(''email'', Plain (JStr ''z@x.com'')), (''password'', Plain (JStr ''pw1''))]"
  have f: "qfield ?good ''email'' = Plain (JStr ''a@x.com'')"
      "qfield ?good ''password'' = Plain (JStr ''pw1'')"
      "qfield ?wrong ''email'' = Plain (JStr ''a@x.com'')"
      "qfield ?wrong ''password'' = Plain (JStr ''wrong'')"
      "qfield ?nobody ''email'' = Plain (JStr ''z@x.com'')"
      "qfield ?nobody ''password'' = Plain (JStr ''pw1'')"
    by (simp_all add: qfield_def)
  have up: "\<not> fst (store_call w_alice)" and down: "fst (store_call (w_alice\<lparr>outages := [True]\<rparr>))"
    by (simp_all add: store_call_def toy_defs)
  have found: "find_one toy_env (\<lambda>x. email x = ''a@x.com'') (users w_alice) = Some alice"
    and missing: "\<forall>x \<in> set (users w_alice). email x \<noteq> ''z@x.com''"
    by (simp_all add: find_one_def toy_defs)
  have a: "password alice = ''pw1''" "username alice = ''alice''" "email alice = ''a@x.com''"
    "user_id alice = 0"
    by (simp_all add: alice_def)
  have tok: "jwt_sign toy_env \<lparr>userId = Plain (JStr (toHexString toy_env 0)),
               jwt_username = ''alice''\<rparr> (secret toy_env) 3600 (clock w_alice)
               = ''10fyour-secret-key.alice''"
    and clk: "clock w_alice = 5000"
    by (simp_all add: toy_defs)
  note good = login_outcomes[of w_alice toy_env ?good "''a@x.com''" alice, unfolded f]
  note wrong = login_outcomes[of w_alice toy_env ?wrong "''a@x.com''" alice, unfolded f]
  note nobody = login_outcomes[of w_alice toy_env ?nobody "''z@x.com''", unfolded f]
  note failed = login_outcomes[of "w_alice\<lparr>outages := [True]\<rparr>" toy_env ?good]
  from good up found a tok toy_env_jwt_contract
  have ok: "fst (post_login toy_env ?good w_alice)
              = json 200 (AuthJson True ''10fyour-secret-key.alice'' 0 ''alice'' ''a@x.com'')"
    and dec: "\<forall>now. now div 1000 < clock w_alice div 1000 + 3600 \<longrightarrow>
                 (\<exists>p. jwt_verify toy_env ''10fyour-secret-key.alice'' (secret toy_env) now = Inr p
                     \<and> jwt_username p = ''alice'')"
    by simp_all
  from dec clk have dec6: "\<exists>p. jwt_verify toy_env ''10fyour-secret-key.alice'' (secret toy_env) 6000
                                  = Inr p \<and> jwt_username p = ''alice''"
    by (auto dest: spec[of _ 6000])
  from wrong up found a
  have bad: "fst (post_login toy_env ?wrong w_alice) = json 401 (ErrorJson ''Invalid credentials'')"
    by simp
  from nobody up missing
  have none: "fst (post_login toy_env ?nobody w_alice) = json 401 (ErrorJson ''Invalid credentials'')"
    by simp
  from failed down
  have err: "fst (post_login toy_env ?good (w_alice\<lparr>outages := [True]\<rparr>))
               = json 500 (ErrorJson ''Login failed'')"
    by simp
  from up found ok toy_env_jwt_contract dec6 bad none down err show ?thesis
    by simp
qed

text \<open>
  The claim as it was stated fails twice. The body's \<^verbatim>\<open>email\<close> is the object
  \<^verbatim>\<open>{"$gt": ""}\<close>, which is no user's e-mail address, the password is alice's, and the
  answer is 200 with a token for alice, not 401. And alice logs in with her own address
  and password while the store rejects the lookup, and the answer is 500, neither 401
  nor 200.
\<close>

theorem login_operator_email_and_store_failure:
  "users w_alice = [alice]
 \<and> Plain (JStr (email alice)) \<noteq>
     qfield [(''email'', JObject [(''$gt'', JStr [])]), (''password'', Plain (JStr ''pw1''))]
       ''email''
 \<and> \<not> fst (store_call w_alice)
 \<and> fst (post_login toy_env
          [(''email'', JObject [(''$gt'', JStr [])]), (''password'', Plain (JStr ''pw1''))]
          w_alice)
     = json 200 (AuthJson True ''10fyour-secret-key.alice'' 0 ''alice'' ''a@x.com'')
 \<and> Plain (JStr (email alice)) =
     qfield [(''email'', Plain (JStr ''a@x.com'')), (''password'', Plain (JStr ''pw1''))] ''email''
 \<and> Plain (JStr (password alice)) =
     qfield [(''email'', Plain (JStr ''a@x.com'')), (''password'', Plain (JStr ''pw1''))]
       ''password''
 \<and> fst (post_login toy_env
          [(''email'', Plain (JStr ''a@x.com'')), (''password'', Plain (JStr ''pw1''))]
          (w_alice\<lparr>outages := [True]\<rparr>)) = json 500 (ErrorJson ''Login failed'')"
  by (simp add: post_login_def User_findOne_email_def find_one_def store_call_def toy_defs)

section \<open>Registration followed by login\<close>

text \<open>
  A registration with three strings that is answered with 201 has stored one new user,
  with the password as it was given; a login with the same e-mail address and password,
  on a store that answers, is then answered with 200 and a token signed over the
  registered name. No handler but the chat handler draws a session identifier, and none
  gives one back.
\<close>

lemma User_save_eq:
  "User_save E (Plain (JStr un)) (Plain (JStr em)) (Plain (JStr pw)) w =
     (if un = [] \<or> em = [] \<or> pw = [] then (Inl ValidationError, w)
      else if fst (store_call w) then (Inl StoreError, snd (store_call w))
      else if \<exists>x \<in> set (users w). username x = un \<or> email x = em
        then (Inl DuplicateKey, snd (store_call w))
      else (Inr \<lparr>user_id = next_oid w, username = un, email = em, password = pw,
                 createdAt = clock w\<rparr>,
            (snd (store_call w))
              \<lparr>users := users w @ [\<lparr>user_id = next_oid w, username = un, email = em,
                                      password = pw, createdAt = clock w\<rparr>],
               next_oid := Suc (next_oid w)\<rparr>))"
  by (simp add: User_save_def Let_def case_prod_beta)

lemma register_then_login:
  assumes fields: "qfield b ''username'' = Plain (JStr name)" "qfield b ''email'' = Plain (JStr addr)"
      "qfield b ''password'' = Plain (JStr pw)"
    and reg: "post_register E b w = (r, w')" "status r = 201"
    and up: "\<not> fst (store_call w')"
    and same: "qfield b' ''email'' = qfield b ''email''"
              "qfield b' ''password'' = qfield b ''password''"
  shows "fst (post_login E b' w') =
           json 200 (AuthJson True
             (jwt_sign E \<lparr>userId = Plain (JStr (toHexString E (next_oid w))),
                          jwt_username = name\<rparr> (secret E) 3600 (clock w))
             (next_oid w) name addr)"
proof -
  let ?new = "\<lparr>user_id = next_oid w, username = name, email = addr, password = pw,
               createdAt = clock w\<rparr>"
  from reg have fresh: "\<forall>x \<in> set (users w). username x \<noteq> name \<and> email x \<noteq> addr"
    and us: "users w' = users w @ [?new]" and clk: "clock w' = clock w"
    unfolding post_register_def fields User_findOne_or_eq
    by (auto simp: Let_def User_save_eq find_one_None_iff split: if_splits option.splits)
  have "filter (\<lambda>x. email x = addr) (users w') = [?new]"
    unfolding us using fresh by (simp add: filter_empty_conv)
  then have "find_one E (\<lambda>x. email x = addr) (users w') = Some ?new"
    by (rule find_one_single)
  then show ?thesis
    using up by (simp add: post_login_eq same fields clk)
qed

lemma User_save_draws: "uuid_draws (snd (User_save E u e p w)) = uuid_draws w"
  by (simp add: User_save_def Let_def case_prod_beta split: option.splits)

lemma handlers_keep_draws:
  "uuid_draws (snd (post_login E b w)) = uuid_draws w"
  "uuid_draws (snd (get_me E p w)) = uuid_draws w"
  "uuid_draws w \<le> uuid_draws (snd (post_chat E u c w))"
  by (simp_all add: post_login_eq get_me_eq chat_draws split: option.splits)

lemma register_keeps_draws: "uuid_draws (snd (post_register E b w)) = uuid_draws w"
proof -
  have "uuid_draws (snd (User_save E u e p (snd (store_call w)))) = uuid_draws w" for u e p
    by (simp add: User_save_draws)
  then show ?thesis
    by (simp add: post_register_def User_findOne_or_eq Let_def case_prod_beta
             split: option.splits sum.splits)
qed

end
